theory Spec2Isabelle
  imports Main "HOL-Library.AList" "HOL-Library.Multiset" "HOL-Library.Char_ord"
    "HOL-Library.List_Lexorder"
begin

section \<open>The mainboard component registry of \<^verbatim>\<open>src/main.py\<close>\<close>

text \<open>
  The program builds one \<^verbatim>\<open>Mainboard\<close> object that owns a fixed set of
  \<^verbatim>\<open>MainboardComponent\<close> objects and answers a few queries over them. Python objects
  have identity: four memory slots are four distinct objects with equal fields. The
  embedding keeps that. Components live in a heap (a list, the index of a component is its
  reference), the board holds references, and every method is a function on the pair of
  the receiver and the heap that returns its result together with the pair afterwards.
  Exceptions are values of the type \<open>error\<close>.

  The two classes inherit from classes of a machine-learning framework that is not part of
  the repository. Construction is read from \<^verbatim>\<open>src/main.py\<close> alone. Where the program
  looks attributes of a board up by name, the attributes that the base class adds are a
  parameter of the embedding, see \<open>base\<close> below.
\<close>

subsection \<open>Data\<close>

text \<open>The values found in the literal spec tables: numbers, strings, booleans, lists of strings.\<close>

datatype spec_value = IntV int | StrV string | BoolV bool | ListV "string list"

type_synonym spec_table = "(string \<times> spec_value) list"

type_synonym ref = nat

text \<open>\<^verbatim>\<open>MainboardComponent\<close>, lines 4 to 13: the fields that \<^verbatim>\<open>__init__\<close> assigns.\<close>

record MainboardComponent =
  component_type :: string
  specs :: spec_table
  location :: "string option"
  connections :: "ref list"
  temperature :: int
  power_draw :: int
  status :: string

type_synonym heap = "MainboardComponent list"

text \<open>
  \<^verbatim>\<open>Mainboard\<close>, lines 15 to 169: the attributes assigned by \<^verbatim>\<open>__init__\<close> and
  \<^verbatim>\<open>initialize_components\<close>. The parameter \<open>'c\<close> is what a component slot holds: a
  reference in the running program, a component value in a snapshot of the board.
  The two dictionaries keep their insertion order.
\<close>

record 'c Mainboard =
  form_factor :: string
  cpu_socket :: 'c
  chipset :: 'c
  memory_slots :: "'c list"
  m2_slots :: "'c list"
  sata_ports :: "'c list"
  vrm :: 'c
  fan_headers :: "'c list"
  pump_headers :: "'c list"
  rgb_headers :: "(string \<times> 'c list) list"
  debug_features :: 'c
  bios_system :: 'c
  audio_system :: 'c
  network :: 'c
  thunderbolt :: "'c list"
  pcie_slots :: "(string \<times> 'c list) list"

type_synonym state = "ref Mainboard \<times> heap"

text \<open>
  The exceptions: a name that is not an attribute, a key that is not in a dictionary, a call
  of something that cannot be called that way, and an exception raised by code of the
  framework, which carries the name of the attribute whose read raised it.
\<close>

datatype error = AttributeError string | KeyError string | TypeError string | FrameworkError string

subsection \<open>Construction\<close>

text \<open>
  \<^verbatim>\<open>MainboardComponent(component_type, specs, location=None)\<close> allocates a new object
  at the end of the heap and returns its reference.
\<close>

definition MainboardComponent_init ::
  "string \<Rightarrow> spec_table \<Rightarrow> string option \<Rightarrow> heap \<Rightarrow> ref \<times> heap" where
  "MainboardComponent_init ct sp loc h =
     (length h,
      h @ [\<lparr>component_type = ct, specs = sp, location = loc, connections = [],
            temperature = 0, power_draw = 0, status = ''operational''\<rparr>])"

text \<open>The comprehension \<^verbatim>\<open>[MainboardComponent(ct, sp) for _ in range(n)]\<close>.\<close>

fun new_components :: "nat \<Rightarrow> string \<Rightarrow> spec_table \<Rightarrow> heap \<Rightarrow> ref list \<times> heap" where
  "new_components 0 ct sp h = ([], h)"
| "new_components (Suc n) ct sp h =
     (let (r, h1) = MainboardComponent_init ct sp None h;
          (rs, h2) = new_components n ct sp h1
      in (r # rs, h2))"

text \<open>The literal spec tables of \<^verbatim>\<open>initialize_components\<close>, in the order of the source.\<close>

definition cpu_socket_specs :: spec_table where
  "cpu_socket_specs =
     [(''type'', StrV ''LGA1700''),
      (''pins'', IntV 1700),
      (''supported_cpus'', ListV [''12th Gen Intel'', ''13th Gen Intel'', ''14th Gen Intel'']),
      (''max_tdp'', IntV 253),
      (''overclocking'', BoolV True)]"

definition chipset_specs :: spec_table where
  "chipset_specs =
     [(''model'', StrV ''Z790''),
      (''features'', ListV [''PCIe 5.0'', ''DDR5 Support'', ''WiFi 6E'', ''Thunderbolt 4'']),
      (''max_memory_speed'', IntV 7800)]"

definition memory_slot_specs :: spec_table where
  "memory_slot_specs =
     [(''type'', StrV ''DDR5''),
      (''max_speed'', IntV 7800),
      (''channels'', StrV ''Dual-Channel''),
      (''xmp_support'', BoolV True),
      (''ecc_support'', BoolV True)]"

definition m2_slot_specs :: spec_table where
  "m2_slot_specs =
     [(''interface'', StrV ''PCIe 5.0 x4''),
      (''form_factors'', ListV [''2280'', ''2260'', ''2242'', ''22110'']),
      (''cooling'', StrV ''Heatsink included''),
      (''max_speed'', StrV ''128 Gb/s'')]"

definition sata_port_specs :: spec_table where
  "sata_port_specs =
     [(''version'', StrV ''SATA III''),
      (''speed'', StrV ''6 Gb/s''),
      (''raid_support'', ListV [''0'', ''1'', ''5'', ''10''])]"

definition vrm_specs :: spec_table where
  "vrm_specs =
     [(''phases'', StrV ''20+1+2''),
      (''mosfets'', StrV ''DrMOS 90A''),
      (''controller'', StrV ''Digitally Controlled''),
      (''cooling'', StrV ''Extended Heatsink''),
      (''monitoring'', StrV ''Real-time current and temperature'')]"

definition fan_header_specs :: spec_table where
  "fan_header_specs =
     [(''type'', StrV ''PWM''),
      (''max_current'', StrV ''2A''),
      (''smart_control'', BoolV True),
      (''hybrid_mode'', BoolV True)]"

definition pump_header_specs :: spec_table where
  "pump_header_specs =
     [(''type'', StrV ''AIO/Custom Loop''),
      (''max_current'', StrV ''3A''),
      (''smart_control'', BoolV True)]"

definition argb_header_specs :: spec_table where
  "argb_header_specs =
     [(''pins'', IntV 3),
      (''voltage'', StrV ''5V''),
      (''max_current'', StrV ''3A''),
      (''led_count'', IntV 300)]"

definition rgb_header_specs :: spec_table where
  "rgb_header_specs =
     [(''pins'', IntV 4),
      (''voltage'', StrV ''12V''),
      (''max_current'', StrV ''3A'')]"

definition debug_specs :: spec_table where
  "debug_specs =
     [(''post_code'', StrV ''LED Display''),
      (''voltage_monitoring'', BoolV True),
      (''temperature_sensors'', IntV 10),
      (''fan_monitoring'', BoolV True),
      (''error_logging'', BoolV True)]"

definition bios_specs :: spec_table where
  "bios_specs =
     [(''type'', StrV ''UEFI''),
      (''size'', StrV ''256Mb''),
      (''dual_bios'', BoolV True),
      (''flashback'', BoolV True),
      (''secure_boot'', BoolV True),
      (''tpm_support'', StrV ''2.0'')]"

definition audio_specs :: spec_table where
  "audio_specs =
     [(''codec'', StrV ''Realtek ALC4082''),
      (''dac'', StrV ''ESS SABRE9018Q2C''),
      (''snr'', StrV ''130dB''),
      (''amplifier'', StrV ''Texas Instruments''),
      (''isolation'', StrV ''EMI Shielding'')]"

definition network_specs :: spec_table where
  "network_specs =
     [(''ethernet_1'', StrV ''10 GbE''),
      (''ethernet_2'', StrV ''2.5 GbE''),
      (''wifi'', StrV ''WiFi 6E''),
      (''bluetooth'', StrV ''5.3'')]"

definition thunderbolt_specs :: spec_table where
  "thunderbolt_specs =
     [(''speed'', StrV ''40 Gbps''),
      (''power_delivery'', StrV ''100W''),
      (''display_support'', StrV ''8K@60Hz'')]"

definition pcie_x16_specs :: spec_table where
  "pcie_x16_specs =
     [(''version'', StrV ''PCIe 5.0''),
      (''lanes'', IntV 16),
      (''reinforced'', BoolV True),
      (''bifurcation'', StrV ''x8/x8 capable'')]"

definition pcie_x4_specs :: spec_table where
  "pcie_x4_specs = [(''version'', StrV ''PCIe 4.0''), (''lanes'', IntV 4)]"

definition pcie_x1_specs :: spec_table where
  "pcie_x1_specs = [(''version'', StrV ''PCIe 3.0''), (''lanes'', IntV 1)]"

text \<open>
  \<^verbatim>\<open>initialize_components\<close>, lines 21 to 169. The first argument is
  \<^verbatim>\<open>self.form_factor\<close>, set by \<^verbatim>\<open>__init__\<close> just before the call; the components are
  allocated in the order in which the source evaluates the constructor calls.
\<close>

definition initialize_components :: "string \<Rightarrow> heap \<Rightarrow> state" where
  "initialize_components ff h0 =
     (let (cpu, h1) = MainboardComponent_init ''CPU Socket'' cpu_socket_specs None h0;
          (chip, h2) = MainboardComponent_init ''Chipset'' chipset_specs None h1;
          (mem, h3) = new_components 4 ''RAM Slot'' memory_slot_specs h2;
          (m2, h4) = new_components 4 ''M.2 Slot'' m2_slot_specs h3;
          (sata, h5) = new_components 8 ''SATA Port'' sata_port_specs h4;
          (vr, h6) = MainboardComponent_init ''VRM'' vrm_specs None h5;
          (fans, h7) = new_components 8 ''Fan Header'' fan_header_specs h6;
          (pumps, h8) = new_components 2 ''Pump Header'' pump_header_specs h7;
          (argb, h9) = new_components 3 ''ARGB Header'' argb_header_specs h8;
          (rgb, h10) = new_components 2 ''RGB Header'' rgb_header_specs h9;
          (dbg, h11) = MainboardComponent_init ''Debug System'' debug_specs None h10;
          (bios, h12) = MainboardComponent_init ''BIOS'' bios_specs None h11;
          (audio, h13) = MainboardComponent_init ''Audio'' audio_specs None h12;
          (net, h14) = MainboardComponent_init ''Network'' network_specs None h13;
          (tb, h15) = new_components 2 ''Thunderbolt 4'' thunderbolt_specs h14;
          (x16, h16) = new_components 2 ''PCIe x16'' pcie_x16_specs h15;
          (x4, h17) = new_components 1 ''PCIe x4'' pcie_x4_specs h16;
          (x1, h18) = new_components 2 ''PCIe x1'' pcie_x1_specs h17
      in (\<lparr>form_factor = ff,
           cpu_socket = cpu,
           chipset = chip,
           memory_slots = mem,
           m2_slots = m2,
           sata_ports = sata,
           vrm = vr,
           fan_headers = fans,
           pump_headers = pumps,
           rgb_headers = [(''addressable'', argb), (''traditional'', rgb)],
           debug_features = dbg,
           bios_system = bios,
           audio_system = audio,
           network = net,
           thunderbolt = tb,
           pcie_slots = [(''x16'', x16), (''x4'', x4), (''x1'', x1)]\<rparr>,
          h18))"

text \<open>\<^verbatim>\<open>Mainboard(form_factor)\<close>, lines 16 to 19, run on the heap \<open>h\<close>.\<close>

definition Mainboard_init :: "string \<Rightarrow> heap \<Rightarrow> state" where
  "Mainboard_init ff h = initialize_components ff h"

subsection \<open>Attributes of a board\<close>

text \<open>
  What \<^verbatim>\<open>getattr(self, name)\<close> can return on a \<^verbatim>\<open>Mainboard\<close>: a component, a list of
  components, a dictionary of lists of components, a string, a bound method, or any other
  value (a number, \<^verbatim>\<open>None\<close>, a list that does not start with a component, and so on).
\<close>

datatype attr =
    Component ref
  | ListOf "ref list"
  | DictOf "(string \<times> ref list) list"
  | Str string
  | Method
  | Other

text \<open>
  The attributes that \<^verbatim>\<open>src/main.py\<close> itself gives a board: the instance attributes
  assigned in lines 18 to 169 and the methods defined in the class body, lines 16 to 212.
\<close>

definition own_attributes :: "ref Mainboard \<Rightarrow> (string \<times> attr) list" where
  "own_attributes mb =
     [(''__init__'', Method),
      (''audio_system'', Component (audio_system mb)),
      (''bios_system'', Component (bios_system mb)),
      (''call'', Method),
      (''chipset'', Component (chipset mb)),
      (''cpu_socket'', Component (cpu_socket mb)),
      (''debug_features'', Component (debug_features mb)),
      (''fan_headers'', ListOf (fan_headers mb)),
      (''form_factor'', Str (form_factor mb)),
      (''get_all_components'', Method),
      (''initialize_components'', Method),
      (''m2_slots'', ListOf (m2_slots mb)),
      (''manage_power_delivery'', Method),
      (''memory_slots'', ListOf (memory_slots mb)),
      (''monitor_temperatures'', Method),
      (''network'', Component (network mb)),
      (''pcie_slots'', DictOf (pcie_slots mb)),
      (''pump_headers'', ListOf (pump_headers mb)),
      (''rgb_headers'', DictOf (rgb_headers mb)),
      (''run_diagnostics'', Method),
      (''sata_ports'', ListOf (sata_ports mb)),
      (''thunderbolt'', ListOf (thunderbolt mb)),
      (''verify_all_components'', Method),
      (''vrm'', Component (vrm mb))]"

text \<open>
  \<^verbatim>\<open>Mainboard\<close> extends \<^verbatim>\<open>tf.keras.Model\<close> (line 15), and the code of that class is not
  in the repository. What the base class adds to a board is therefore a parameter of every
  operation that looks an attribute up: the names it adds to \<^verbatim>\<open>dir(self)\<close>, each with the
  outcome of reading it on the board at hand, which is a value or an exception (a property
  may raise when it is read). Reading an attribute is taken to change nothing.
\<close>

type_synonym base = "(string \<times> (error + attr)) list"

text \<open>
  The attribute table of a board. A name that \<^verbatim>\<open>src/main.py\<close> defines hides an
  inherited one; the first entry of a name is the one that counts.
\<close>

definition attributes :: "base \<Rightarrow> ref Mainboard \<Rightarrow> (string \<times> (error + attr)) list" where
  "attributes base mb = map (\<lambda>(name, a). (name, Inr a)) (own_attributes mb) @ base"

text \<open>
  \<^verbatim>\<open>dir(self)\<close>: every name of the table once, in alphabetical order (strings are
  compared character by character, by code point, and a proper prefix comes first).
\<close>

definition dir_names :: "base \<Rightarrow> ref Mainboard \<Rightarrow> string list" where
  "dir_names base mb = sort (remdups (map fst (attributes base mb)))"

text \<open>\<^verbatim>\<open>getattr(self, name)\<close>.\<close>

definition getattr :: "base \<Rightarrow> ref Mainboard \<Rightarrow> string \<Rightarrow> error + attr" where
  "getattr base mb name =
     (case map_of (attributes base mb) name of
        None \<Rightarrow> Inl (AttributeError name)
      | Some outcome \<Rightarrow> outcome)"

subsection \<open>The queries\<close>

text \<open>
  The loop of \<^verbatim>\<open>get_all_components\<close>, lines 202 to 207, over the names still to visit,
  with the list \<^verbatim>\<open>components\<close> built so far. An attribute that is a component is
  appended; an attribute that is a non-empty list whose first element is a component
  extends the list; every other attribute is passed over. An exception raised by
  \<^verbatim>\<open>getattr\<close> ends the loop: nothing in the method catches it.
\<close>

fun collect :: "base \<Rightarrow> ref Mainboard \<Rightarrow> string list \<Rightarrow> ref list \<Rightarrow> error + ref list" where
  "collect base mb [] components = Inr components"
| "collect base mb (attr_name # rest) components =
     (case getattr base mb attr_name of
        Inl e \<Rightarrow> Inl e
      | Inr (Component r) \<Rightarrow> collect base mb rest (components @ [r])
      | Inr (ListOf []) \<Rightarrow> collect base mb rest components
      | Inr (ListOf (r # rs)) \<Rightarrow> collect base mb rest (components @ r # rs)
      | Inr _ \<Rightarrow> collect base mb rest components)"

text \<open>\<^verbatim>\<open>get_all_components\<close>, lines 200 to 208.\<close>

definition get_all_components :: "base \<Rightarrow> state \<Rightarrow> (error + ref list) \<times> state" where
  "get_all_components base s = (collect base (fst s) (dir_names base (fst s)) [], s)"

text \<open>
  The dictionary comprehension of \<^verbatim>\<open>verify_all_components\<close>, lines 197 and 198: each
  component in turn stores its status under its type. A key that is already present keeps
  its place and takes the new value, a new key goes to the end.
\<close>

fun status_dict :: "heap \<Rightarrow> ref list \<Rightarrow> (string \<times> string) list \<Rightarrow> (string \<times> string) list" where
  "status_dict h [] d = d"
| "status_dict h (r # rs) d =
     status_dict h rs (AList.update (component_type (h ! r)) (status (h ! r)) d)"

text \<open>\<^verbatim>\<open>verify_all_components\<close>, lines 196 to 198.\<close>

definition verify_all_components ::
  "base \<Rightarrow> state \<Rightarrow> (error + (string \<times> string) list) \<times> state" where
  "verify_all_components base s =
     (case get_all_components base s of
        (Inl e, s1) \<Rightarrow> (Inl e, s1)
      | (Inr components, s1) \<Rightarrow> (Inr (status_dict (snd s1) components []), s1))"

subsection \<open>The diagnostic operations\<close>

text \<open>The values of the dictionaries that the diagnostic operations build.\<close>

datatype pyvalue =
    Spec spec_value
  | Num int
  | NumList "int list"
  | StatusDict "(string \<times> string) list"
  | Dict "(string \<times> pyvalue) list"

text \<open>
  Sequencing of two steps that may raise: an exception of the first step ends the
  evaluation, in the state reached so far.
\<close>

definition and_then ::
  "(state \<Rightarrow> (error + 'a) \<times> state) \<Rightarrow> ('a \<Rightarrow> state \<Rightarrow> (error + 'b) \<times> state) \<Rightarrow>
   state \<Rightarrow> (error + 'b) \<times> state" where
  "and_then m f s = (case m s of (Inl e, s1) \<Rightarrow> (Inl e, s1) | (Inr x, s1) \<Rightarrow> f x s1)"

definition returns :: "'a \<Rightarrow> state \<Rightarrow> (error + 'a) \<times> state" where
  "returns x s = (Inr x, s)"

text \<open>
  A call \<^verbatim>\<open>self.name(args)\<close> of one of the data sources \<^verbatim>\<open>get_cpu_temp\<close>,
  \<^verbatim>\<open>get_vrm_temp\<close>, \<^verbatim>\<open>get_m2_temp\<close>, \<^verbatim>\<open>get_chipset_temp\<close>, \<^verbatim>\<open>calculate_total_power\<close>
  and \<^verbatim>\<open>calculate_power_efficiency\<close>: the name is looked up on the board first, and a
  failed lookup is the exception of the call. The source defines no function under any of
  these names. An attribute found under such a name is not a data source of this program;
  the embedding ends such a call with a type error, and the properties below are about
  base classes that define none of the six names.
\<close>

definition call_method :: "base \<Rightarrow> string \<Rightarrow> int list \<Rightarrow> state \<Rightarrow> (error + int) \<times> state" where
  "call_method base name args s =
     (case getattr base (fst s) name of
        Inl e \<Rightarrow> (Inl e, s)
      | Inr a \<Rightarrow> (Inl (TypeError name), s))"

text \<open>The comprehension \<^verbatim>\<open>[f(i) for i in xs]\<close>, which stops at the first exception.\<close>

fun for_each ::
  "('i \<Rightarrow> state \<Rightarrow> (error + 'a) \<times> state) \<Rightarrow> 'i list \<Rightarrow> state \<Rightarrow> (error + 'a list) \<times> state" where
  "for_each f [] = returns []"
| "for_each f (i # rest) =
     and_then (f i) (\<lambda>x. and_then (for_each f rest) (\<lambda>xs. returns (x # xs)))"

text \<open>\<^verbatim>\<open>monitor_temperatures\<close>, lines 171 to 178; the entries are evaluated in order.\<close>

definition monitor_temperatures :: "base \<Rightarrow> state \<Rightarrow> (error + pyvalue) \<times> state" where
  "monitor_temperatures base =
     and_then (call_method base ''get_cpu_temp'' []) (\<lambda>cpu.
     and_then (call_method base ''get_vrm_temp'' []) (\<lambda>vrm_temp.
     and_then (\<lambda>s. for_each (\<lambda>i. call_method base ''get_m2_temp'' [int i])
                      [0..<length (m2_slots (fst s))] s) (\<lambda>m2.
     and_then (call_method base ''get_chipset_temp'' []) (\<lambda>chipset_temp.
     returns (Dict [(''cpu'', Num cpu),
                    (''vrm'', Num vrm_temp),
                    (''m2_slots'', NumList m2),
                    (''chipset'', Num chipset_temp)])))))"

text \<open>\<^verbatim>\<open>manage_power_delivery\<close>, lines 180 to 186.\<close>

definition manage_power_delivery :: "base \<Rightarrow> state \<Rightarrow> (error + pyvalue) \<times> state" where
  "manage_power_delivery base =
     and_then (\<lambda>s. returns (power_draw (snd s ! vrm (fst s))) s) (\<lambda>cpu_power.
     and_then (call_method base ''calculate_total_power'' []) (\<lambda>total.
     and_then (call_method base ''calculate_power_efficiency'' []) (\<lambda>efficiency.
     returns (Dict [(''cpu_power'', Num cpu_power),
                    (''total_system_power'', Num total),
                    (''efficiency'', Num efficiency)]))))"

text \<open>The subscript \<^verbatim>\<open>specs[key]\<close>, which raises \<^verbatim>\<open>KeyError\<close> on a missing key.\<close>

definition subscript :: "spec_table \<Rightarrow> string \<Rightarrow> error + spec_value" where
  "subscript table key =
     (case map_of table key of None \<Rightarrow> Inl (KeyError key) | Some v \<Rightarrow> Inr v)"

text \<open>\<^verbatim>\<open>run_diagnostics\<close>, lines 188 to 194; the entries are evaluated in order.\<close>

definition run_diagnostics :: "base \<Rightarrow> state \<Rightarrow> (error + pyvalue) \<times> state" where
  "run_diagnostics base =
     and_then (\<lambda>s. (subscript (specs (snd s ! debug_features (fst s))) ''post_code'', s))
       (\<lambda>post_code.
     and_then (verify_all_components base) (\<lambda>component_status.
     and_then (monitor_temperatures base) (\<lambda>temperature_status.
     and_then (manage_power_delivery base) (\<lambda>power_status.
     returns (Dict [(''post_code'', Spec post_code),
                    (''component_status'', StatusDict component_status),
                    (''temperature_status'', temperature_status),
                    (''power_status'', power_status)])))))"

text \<open>\<^verbatim>\<open>call\<close>, lines 210 to 212.\<close>

definition call :: "base \<Rightarrow> 'i \<Rightarrow> state \<Rightarrow> (error + pyvalue) \<times> state" where
  "call base inputs s = (let (diagnostics, s1) = run_diagnostics base s in (diagnostics, s1))"

subsection \<open>Ownership and snapshots\<close>

text \<open>
  The component slots of a board, in the order in which \<^verbatim>\<open>initialize_components\<close> fills
  them: the singleton fields, the flat lists, and the lists inside the two dictionaries.
\<close>

definition group_components :: "'c Mainboard \<Rightarrow> 'c list" where
  "group_components mb = concat (map snd (rgb_headers mb)) @ concat (map snd (pcie_slots mb))"

definition direct_components :: "'c Mainboard \<Rightarrow> 'c list" where
  "direct_components mb =
     [cpu_socket mb, chipset mb] @ memory_slots mb @ m2_slots mb @ sata_ports mb @ [vrm mb] @
     fan_headers mb @ pump_headers mb @
     [debug_features mb, bios_system mb, audio_system mb, network mb] @ thunderbolt mb"

definition owned_components :: "'c Mainboard \<Rightarrow> 'c list" where
  "owned_components mb =
     [cpu_socket mb, chipset mb] @ memory_slots mb @ m2_slots mb @ sata_ports mb @ [vrm mb] @
     fan_headers mb @ pump_headers mb @ concat (map snd (rgb_headers mb)) @
     [debug_features mb, bios_system mb, audio_system mb, network mb] @ thunderbolt mb @
     concat (map snd (pcie_slots mb))"

text \<open>
  The board with every reference replaced by the component it points to: what two boards
  are compared by when they are called structurally equal.
\<close>

definition snapshot :: "state \<Rightarrow> MainboardComponent Mainboard" where
  "snapshot s =
     (let mb = fst s; at = (\<lambda>r. snd s ! r) in
      \<lparr>form_factor = form_factor mb,
       cpu_socket = at (cpu_socket mb),
       chipset = at (chipset mb),
       memory_slots = map at (memory_slots mb),
       m2_slots = map at (m2_slots mb),
       sata_ports = map at (sata_ports mb),
       vrm = at (vrm mb),
       fan_headers = map at (fan_headers mb),
       pump_headers = map at (pump_headers mb),
       rgb_headers = map (\<lambda>(k, rs). (k, map at rs)) (rgb_headers mb),
       debug_features = at (debug_features mb),
       bios_system = at (bios_system mb),
       audio_system = at (audio_system mb),
       network = at (network mb),
       thunderbolt = map at (thunderbolt mb),
       pcie_slots = map (\<lambda>(k, rs). (k, map at rs)) (pcie_slots mb)\<rparr>)"

subsection \<open>What the traversal finds\<close>

text \<open>
  The components that one attribute adds to the result of the traversal; the names that
  only the base class defines; whether reading one of them raises; and the components found
  under them.
\<close>

fun entries :: "attr \<Rightarrow> ref list" where
  "entries (Component r) = [r]"
| "entries (ListOf rs) = rs"
| "entries a = []"

definition found :: "base \<Rightarrow> ref Mainboard \<Rightarrow> string \<Rightarrow> ref list" where
  "found base mb name = (case getattr base mb name of Inl e \<Rightarrow> [] | Inr a \<Rightarrow> entries a)"

definition inherited_names :: "base \<Rightarrow> ref Mainboard \<Rightarrow> string list" where
  "inherited_names base mb =
     filter (\<lambda>name. name \<notin> set (map fst (own_attributes mb))) (remdups (map fst base))"

definition inherited_raises :: "base \<Rightarrow> ref Mainboard \<Rightarrow> bool" where
  "inherited_raises base mb = list_ex (\<lambda>name. isl (getattr base mb name)) (inherited_names base mb)"

definition inherited_components :: "base \<Rightarrow> ref Mainboard \<Rightarrow> ref list" where
  "inherited_components base mb = concat (map (found base mb) (inherited_names base mb))"

subsection \<open>The constructed board, written out\<close>

text \<open>
  The object that \<^verbatim>\<open>MainboardComponent.__init__\<close> leaves behind, the board built on a
  heap that holds \<open>n\<close> objects already, and the 45 objects that the construction adds to
  the heap. The lemmas below show that they are what \<open>Mainboard_init\<close> computes.
\<close>

definition new_component :: "string \<Rightarrow> spec_table \<Rightarrow> MainboardComponent" where
  "new_component ct sp = \<lparr>component_type = ct, specs = sp, location = None, connections = [],
            temperature = 0, power_draw = 0, status = ''operational''\<rparr>"

definition board_at :: "string \<Rightarrow> nat \<Rightarrow> ref Mainboard" where
  "board_at ff n =
     \<lparr>form_factor = ff,
      cpu_socket = n,
      chipset = n + 1,
      memory_slots = [n + 2, n + 3, n + 4, n + 5],
      m2_slots = [n + 6, n + 7, n + 8, n + 9],
      sata_ports = [n + 10, n + 11, n + 12, n + 13, n + 14, n + 15, n + 16, n + 17],
      vrm = n + 18,
      fan_headers = [n + 19, n + 20, n + 21, n + 22, n + 23, n + 24, n + 25, n + 26],
      pump_headers = [n + 27, n + 28],
      rgb_headers = [(''addressable'', [n + 29, n + 30, n + 31]),
                     (''traditional'', [n + 32, n + 33])],
      debug_features = n + 34,
      bios_system = n + 35,
      audio_system = n + 36,
      network = n + 37,
      thunderbolt = [n + 38, n + 39],
      pcie_slots = [(''x16'', [n + 40, n + 41]), (''x4'', [n + 42]), (''x1'', [n + 43, n + 44])]\<rparr>"

definition board_components :: "MainboardComponent list" where
  "board_components =
     [new_component ''CPU Socket'' cpu_socket_specs,
      new_component ''Chipset'' chipset_specs] @
     replicate 4 (new_component ''RAM Slot'' memory_slot_specs) @
     replicate 4 (new_component ''M.2 Slot'' m2_slot_specs) @
     replicate 8 (new_component ''SATA Port'' sata_port_specs) @
     [new_component ''VRM'' vrm_specs] @
     replicate 8 (new_component ''Fan Header'' fan_header_specs) @
     replicate 2 (new_component ''Pump Header'' pump_header_specs) @
     replicate 3 (new_component ''ARGB Header'' argb_header_specs) @
     replicate 2 (new_component ''RGB Header'' rgb_header_specs) @
     [new_component ''Debug System'' debug_specs,
      new_component ''BIOS'' bios_specs,
      new_component ''Audio'' audio_specs,
      new_component ''Network'' network_specs] @
     replicate 2 (new_component ''Thunderbolt 4'' thunderbolt_specs) @
     replicate 2 (new_component ''PCIe x16'' pcie_x16_specs) @
     [new_component ''PCIe x4'' pcie_x4_specs] @
     replicate 2 (new_component ''PCIe x1'' pcie_x1_specs)"

section \<open>Properties\<close>

subsection \<open>What construction computes\<close>

lemma new_components_eq:
  "new_components n ct sp h =
     (map (\<lambda>k. length h + k) [0..<n], h @ replicate n (new_component ct sp))"
proof (induction n arbitrary: h)
  case 0
  then show ?case by simp
next
  case (Suc n)
  have "map (\<lambda>k. length h + k) [0..<Suc n] = length h # map (\<lambda>k. Suc (length h + k)) [0..<n]"
    by (simp only: upt_conv_Cons[of 0 "Suc n"] zero_less_Suc list.map map_Suc_upt[symmetric] map_map o_def) simp
  then show ?case
    by (simp add: Suc.IH MainboardComponent_init_def new_component_def replicate_append_same del: upt_Suc)
qed

lemma upt_small:
  "[0..<Suc 0] = [0]" "[0..<2] = [0, 1]" "[0..<3] = [0, 1, 2]" "[0..<4] = [0, 1, 2, 3]"
  "[0..<8] = [0, 1, 2, 3, 4, 5, 6, 7]"
  by code_simp+

lemma Mainboard_init_eq:
  "Mainboard_init ff h = (board_at ff (length h), h @ board_components)"
  by (simp add: Mainboard_init_def initialize_components_def new_components_eq MainboardComponent_init_def Let_def new_component_def[symmetric] board_at_def board_components_def upt_small del: upt_Suc)

lemma board_components_list:
  "board_components =
     [new_component ''CPU Socket'' cpu_socket_specs,
      new_component ''Chipset'' chipset_specs,
      new_component ''RAM Slot'' memory_slot_specs,
      new_component ''RAM Slot'' memory_slot_specs,
      new_component ''RAM Slot'' memory_slot_specs,
      new_component ''RAM Slot'' memory_slot_specs,
      new_component ''M.2 Slot'' m2_slot_specs,
      new_component ''M.2 Slot'' m2_slot_specs,
      new_component ''M.2 Slot'' m2_slot_specs,
      new_component ''M.2 Slot'' m2_slot_specs,
      new_component ''SATA Port'' sata_port_specs,
      new_component ''SATA Port'' sata_port_specs,
      new_component ''SATA Port'' sata_port_specs,
      new_component ''SATA Port'' sata_port_specs,
      new_component ''SATA Port'' sata_port_specs,
      new_component ''SATA Port'' sata_port_specs,
      new_component ''SATA Port'' sata_port_specs,
      new_component ''SATA Port'' sata_port_specs,
      new_component ''VRM'' vrm_specs,
      new_component ''Fan Header'' fan_header_specs,
      new_component ''Fan Header'' fan_header_specs,
      new_component ''Fan Header'' fan_header_specs,
      new_component ''Fan Header'' fan_header_specs,
      new_component ''Fan Header'' fan_header_specs,
      new_component ''Fan Header'' fan_header_specs,
      new_component ''Fan Header'' fan_header_specs,
      new_component ''Fan Header'' fan_header_specs,
      new_component ''Pump Header'' pump_header_specs,
      new_component ''Pump Header'' pump_header_specs,
      new_component ''ARGB Header'' argb_header_specs,
      new_component ''ARGB Header'' argb_header_specs,
      new_component ''ARGB Header'' argb_header_specs,
      new_component ''RGB Header'' rgb_header_specs,
      new_component ''RGB Header'' rgb_header_specs,
      new_component ''Debug System'' debug_specs,
      new_component ''BIOS'' bios_specs,
      new_component ''Audio'' audio_specs,
      new_component ''Network'' network_specs,
      new_component ''Thunderbolt 4'' thunderbolt_specs,
      new_component ''Thunderbolt 4'' thunderbolt_specs,
      new_component ''PCIe x16'' pcie_x16_specs,
      new_component ''PCIe x16'' pcie_x16_specs,
      new_component ''PCIe x4'' pcie_x4_specs,
      new_component ''PCIe x1'' pcie_x1_specs,
      new_component ''PCIe x1'' pcie_x1_specs]"
  by (simp add: board_components_def numeral_eq_Suc)

lemma length_board_components: "length board_components = 45"
  by (simp add: board_components_def)

lemma heap_nth:
  "(h @ board_components) ! (length h + k) = board_components ! k"
  "(h @ board_components) ! (length h) = board_components ! 0"
  "(h @ board_components) ! Suc (length h) = board_components ! 1"
  "(h @ board_components) ! Suc (Suc (length h)) = board_components ! 2"
  by (simp_all add: nth_append)

lemma snapshot_init:
  "snapshot (Mainboard_init ff h) = snapshot (Mainboard_init ff [])"
  apply (simp add: Mainboard_init_eq snapshot_def board_at_def heap_nth Let_def)
  apply (simp add: board_components_list)
  done

lemma snapshot_explicit:
  "snapshot (Mainboard_init ff h) =
     \<lparr>form_factor = ff,
      cpu_socket = new_component ''CPU Socket'' cpu_socket_specs,
      chipset = new_component ''Chipset'' chipset_specs,
      memory_slots = replicate 4 (new_component ''RAM Slot'' memory_slot_specs),
      m2_slots = replicate 4 (new_component ''M.2 Slot'' m2_slot_specs),
      sata_ports = replicate 8 (new_component ''SATA Port'' sata_port_specs),
      vrm = new_component ''VRM'' vrm_specs,
      fan_headers = replicate 8 (new_component ''Fan Header'' fan_header_specs),
      pump_headers = replicate 2 (new_component ''Pump Header'' pump_header_specs),
      rgb_headers =
        [(''addressable'', replicate 3 (new_component ''ARGB Header'' argb_header_specs)),
         (''traditional'', replicate 2 (new_component ''RGB Header'' rgb_header_specs))],
      debug_features = new_component ''Debug System'' debug_specs,
      bios_system = new_component ''BIOS'' bios_specs,
      audio_system = new_component ''Audio'' audio_specs,
      network = new_component ''Network'' network_specs,
      thunderbolt = replicate 2 (new_component ''Thunderbolt 4'' thunderbolt_specs),
      pcie_slots =
        [(''x16'', replicate 2 (new_component ''PCIe x16'' pcie_x16_specs)),
         (''x4'', replicate 1 (new_component ''PCIe x4'' pcie_x4_specs)),
         (''x1'', replicate 2 (new_component ''PCIe x1'' pcie_x1_specs))]\<rparr>"
  apply (subst snapshot_init)
  apply (simp add: Mainboard_init_eq snapshot_def board_at_def board_components_list Let_def
      numeral_eq_Suc)
  done


lemma owned_status:
  "map (\<lambda>r. (status (snd (Mainboard_init ff h) ! r), temperature (snd (Mainboard_init ff h) ! r),
             power_draw (snd (Mainboard_init ff h) ! r)))
       (owned_components (fst (Mainboard_init ff h))) = replicate 45 (''operational'', 0, 0)"
  apply (simp add: Mainboard_init_eq board_at_def owned_components_def heap_nth)
  apply (simp add: board_components_list new_component_def numeral_eq_Suc)
  done

lemma map_replicate_all:
  "map f xs = replicate n c \<Longrightarrow> x \<in> set xs \<Longrightarrow> f x = c"
proof -
  assume eq: "map f xs = replicate n c" and mem: "x \<in> set xs"
  from mem have "f x \<in> set (map f xs)" by simp
  then have "f x \<in> set (replicate n c)" by (simp only: eq)
  then show "f x = c" by simp
qed

subsection \<open>What the traversal computes\<close>

lemma own_names:
  "map fst (own_attributes mb) =
     [''__init__'', ''audio_system'', ''bios_system'', ''call'', ''chipset'', ''cpu_socket'',
      ''debug_features'', ''fan_headers'', ''form_factor'', ''get_all_components'',
      ''initialize_components'', ''m2_slots'', ''manage_power_delivery'', ''memory_slots'',
      ''monitor_temperatures'', ''network'', ''pcie_slots'', ''pump_headers'', ''rgb_headers'',
      ''run_diagnostics'', ''sata_ports'', ''thunderbolt'', ''verify_all_components'', ''vrm'']"
  by (simp add: own_attributes_def)

lemma distinct_own_names: "distinct (map fst (own_attributes mb))"
  by (simp add: own_names)

lemma getattr_own:
  "getattr base mb ''__init__'' = Inr Method"
  "getattr base mb ''audio_system'' = Inr (Component (audio_system mb))"
  "getattr base mb ''bios_system'' = Inr (Component (bios_system mb))"
  "getattr base mb ''call'' = Inr Method"
  "getattr base mb ''chipset'' = Inr (Component (chipset mb))"
  "getattr base mb ''cpu_socket'' = Inr (Component (cpu_socket mb))"
  "getattr base mb ''debug_features'' = Inr (Component (debug_features mb))"
  "getattr base mb ''fan_headers'' = Inr (ListOf (fan_headers mb))"
  "getattr base mb ''form_factor'' = Inr (Str (form_factor mb))"
  "getattr base mb ''get_all_components'' = Inr Method"
  "getattr base mb ''initialize_components'' = Inr Method"
  "getattr base mb ''m2_slots'' = Inr (ListOf (m2_slots mb))"
  "getattr base mb ''manage_power_delivery'' = Inr Method"
  "getattr base mb ''memory_slots'' = Inr (ListOf (memory_slots mb))"
  "getattr base mb ''monitor_temperatures'' = Inr Method"
  "getattr base mb ''network'' = Inr (Component (network mb))"
  "getattr base mb ''pcie_slots'' = Inr (DictOf (pcie_slots mb))"
  "getattr base mb ''pump_headers'' = Inr (ListOf (pump_headers mb))"
  "getattr base mb ''rgb_headers'' = Inr (DictOf (rgb_headers mb))"
  "getattr base mb ''run_diagnostics'' = Inr Method"
  "getattr base mb ''sata_ports'' = Inr (ListOf (sata_ports mb))"
  "getattr base mb ''thunderbolt'' = Inr (ListOf (thunderbolt mb))"
  "getattr base mb ''verify_all_components'' = Inr Method"
  "getattr base mb ''vrm'' = Inr (Component (vrm mb))"
  by (simp_all add: getattr_def attributes_def own_attributes_def)


lemma found_own:
  "concat (map (found base mb) (map fst (own_attributes mb))) =
     [audio_system mb, bios_system mb, chipset mb, cpu_socket mb, debug_features mb] @
     fan_headers mb @ m2_slots mb @ memory_slots mb @ [network mb] @ pump_headers mb @
     sata_ports mb @ thunderbolt mb @ [vrm mb]"
  by (simp add: own_names found_def getattr_own)

lemma own_reads: "name \<in> set (map fst (own_attributes mb)) \<Longrightarrow> \<not> isl (getattr base mb name)"
  by (auto simp add: own_names getattr_own)

lemma collect_step:
  "collect base mb (name # rest) acc =
     (case getattr base mb name of
        Inl e \<Rightarrow> Inl e
      | Inr a \<Rightarrow> collect base mb rest (acc @ entries a))"
proof (cases "getattr base mb name")
  case (Inl e)
  then show ?thesis by simp
next
  case (Inr a)
  then show ?thesis
  proof (cases a)
    case (ListOf rs)
    with Inr show ?thesis by (cases rs) simp_all
  qed simp_all
qed

lemma collect_raises:
  "name \<in> set names \<Longrightarrow> isl (getattr base mb name) \<Longrightarrow> isl (collect base mb names acc)"
proof (induction names arbitrary: acc)
  case Nil
  then show ?case by simp
next
  case (Cons n ns)
  show ?case
  proof (cases "getattr base mb n")
    case (Inl e)
    then show ?thesis by (subst collect_step) simp
  next
    case (Inr a)
    with Cons.prems have "name \<in> set ns" by auto
    from Cons.IH [OF this Cons.prems(2)] Inr show ?thesis by (subst collect_step) simp
  qed
qed

lemma collect_returns:
  "(\<And>name. name \<in> set names \<Longrightarrow> \<not> isl (getattr base mb name)) \<Longrightarrow>
   collect base mb names acc = Inr (acc @ concat (map (found base mb) names))"
proof (induction names arbitrary: acc)
  case Nil
  then show ?case by simp
next
  case (Cons n ns)
  from Cons.prems [of n] obtain a where a: "getattr base mb n = Inr a"
    by (cases "getattr base mb n") simp_all
  have "collect base mb ns (acc @ entries a) =
          Inr ((acc @ entries a) @ concat (map (found base mb) ns))"
    by (rule Cons.IH) (simp add: Cons.prems)
  then show ?case by (subst collect_step) (simp add: a found_def)
qed

lemma set_dir_names:
  "set (dir_names base mb) = set (map fst (own_attributes mb)) \<union> set (inherited_names base mb)"
  by (auto simp add: dir_names_def attributes_def inherited_names_def image_image case_prod_unfold)

lemma mset_dir_names:
  "mset (dir_names base mb) = mset (map fst (own_attributes mb) @ inherited_names base mb)"
proof -
  have d1: "distinct (dir_names base mb)" by (simp add: dir_names_def)
  have d2: "distinct (map fst (own_attributes mb) @ inherited_names base mb)"
    by (auto simp add: distinct_own_names inherited_names_def simp del: set_map)
  have "set (dir_names base mb) = set (map fst (own_attributes mb) @ inherited_names base mb)"
    by (simp add: set_dir_names)
  then show ?thesis by (simp only: set_eq_iff_mset_eq_distinct [OF d1 d2])
qed

lemma mset_concat_map:
  "mset xs = mset ys \<Longrightarrow> mset (concat (map f xs)) = mset (concat (map f ys))"
proof -
  assume e: "mset xs = mset ys"
  have "mset (concat (map f zs)) = sum_mset (image_mset (\<lambda>z. mset (f z)) (mset zs))" for zs
    by (induction zs) simp_all
  then show ?thesis by (simp add: e)
qed

lemma inherited_raises_iff:
  "inherited_raises base mb = (\<exists>name \<in> set (dir_names base mb). isl (getattr base mb name))"
  using own_reads [of _ mb base]
  by (auto simp add: inherited_raises_def list_ex_iff set_dir_names simp del: set_map)

lemma get_all_components_raises:
  "inherited_raises base mb \<Longrightarrow> isl (fst (get_all_components base (mb, h)))"
  by (auto simp add: inherited_raises_iff get_all_components_def intro: collect_raises)

lemma get_all_components_returns:
  assumes "\<not> inherited_raises base mb"
  shows "\<exists>cs. fst (get_all_components base (mb, h)) = Inr cs \<and>
           mset cs = mset (direct_components mb) + mset (inherited_components base mb)"
proof -
  have ok: "\<And>name. name \<in> set (dir_names base mb) \<Longrightarrow> \<not> isl (getattr base mb name)"
    using assms by (simp add: inherited_raises_iff)
  have r: "fst (get_all_components base (mb, h)) =
             Inr (concat (map (found base mb) (dir_names base mb)))"
    using collect_returns [of "dir_names base mb" base mb "[]", OF ok]
    by (simp add: get_all_components_def)
  have "mset (concat (map (found base mb) (dir_names base mb))) =
          mset (concat (map (found base mb) (map fst (own_attributes mb) @ inherited_names base mb)))"
    by (rule mset_concat_map) (rule mset_dir_names)
  also have "\<dots> = mset (concat (map (found base mb) (map fst (own_attributes mb)))) +
                    mset (inherited_components base mb)"
    by (simp add: inherited_components_def)
  also have "mset (concat (map (found base mb) (map fst (own_attributes mb)))) =
               mset (direct_components mb)"
    by (simp only: found_own) (simp add: direct_components_def)
  finally show ?thesis using r by simp
qed







lemma mset_owned:
  "mset (owned_components mb) = mset (direct_components mb) + mset (group_components mb)"
  by (simp add: owned_components_def direct_components_def group_components_def)


lemma group_length: "length (group_components (fst (Mainboard_init ff h))) = 10"
  by (simp add: Mainboard_init_eq board_at_def group_components_def)

lemma get_all_components_mset:
  "map_sum (\<lambda>e. ()) mset (fst (get_all_components base (mb, h))) =
     (if inherited_raises base mb then Inl ()
      else Inr (mset (direct_components mb) + mset (inherited_components base mb)))"
proof (cases "inherited_raises base mb")
  case True
  from get_all_components_raises [OF True, of h] show ?thesis
    by (cases "fst (get_all_components base (mb, h))") (simp_all add: True)
next
  case False
  from get_all_components_returns [OF False, of h] show ?thesis
    by (auto simp add: False)
qed

subsection \<open>What the status dictionary holds\<close>












subsection \<open>What the diagnostic operations compute\<close>







subsection \<open>The queries change nothing\<close>

text \<open>
  Claim C9. The two queries \<open>get_all_components\<close> and \<open>verify_all_components\<close> leave the
  board and the heap as they found them, whatever the board, the heap and the base class
  are, and whether they return or raise: after each of them every field of every component
  and every field of the board has the value it had before.
\<close>

theorem queries_leave_state_unchanged:
  "snd (get_all_components base s) = s \<and> snd (verify_all_components base s) = s"
  by (simp add: get_all_components_def verify_all_components_def split: sum.split)

subsection \<open>The argument of \<open>call\<close>\<close>

text \<open>
  Claim C10. \<open>call\<close> does not look at its argument: on the same state any two arguments,
  of any types, give the same result and the same state afterwards, which are those of
  \<open>run_diagnostics\<close>.
\<close>

theorem call_ignores_inputs:
  "call base a s = call base b s \<and> call base a s = run_diagnostics base s"
  by (simp add: call_def)

subsection \<open>The traversal\<close>

text \<open>
  Claim C1 says that \<open>get_all_components\<close> returns every component the board owns exactly
  once, the ones inside the two dictionaries \<open>rgb_headers\<close> and \<open>pcie_slots\<close> included.
  The loop reads every name of \<^verbatim>\<open>dir(self)\<close>, the inherited ones too, appends an
  attribute that is a component and extends by an attribute that is a list; it has no case
  for a dictionary. So, for every base class, form factor and heap: the call raises exactly
  when reading one of the inherited attributes raises; and what it returns is every owned
  component exactly once (in some order) only when no inherited attribute raises and the
  inherited attributes together hold exactly the ten components of the two dictionaries,
  which the attributes of \<^verbatim>\<open>src/main.py\<close> never supply.
\<close>

theorem get_all_components_every_component:
  "isl (fst (get_all_components base (Mainboard_init ff h))) =
     inherited_raises base (fst (Mainboard_init ff h)) \<and>
   (map_sum (\<lambda>e. ()) mset (fst (get_all_components base (Mainboard_init ff h))) =
      Inr (mset (owned_components (fst (Mainboard_init ff h))))) =
     (\<not> inherited_raises base (fst (Mainboard_init ff h)) \<and>
      mset (inherited_components base (fst (Mainboard_init ff h))) =
        mset (group_components (fst (Mainboard_init ff h)))) \<and>
   length (group_components (fst (Mainboard_init ff h))) = 10"
proof -
  obtain mb hp where s: "Mainboard_init ff h = (mb, hp)"
    by (cases "Mainboard_init ff h")
  have m: "map_sum (\<lambda>e. ()) mset (fst (get_all_components base (mb, hp))) =
     (if inherited_raises base mb then Inl ()
      else Inr (mset (direct_components mb) + mset (inherited_components base mb)))"
    by (rule get_all_components_mset)
  have i: "isl (fst (get_all_components base (mb, hp))) = inherited_raises base mb"
    using m by (cases "fst (get_all_components base (mb, hp))") (simp_all split: if_splits)
  have g: "length (group_components mb) = 10"
    using group_length [of ff h] by (simp add: s)
  show ?thesis
    by (simp add: s i g m mset_owned)
qed



subsection \<open>What construction builds\<close>

text \<open>
  Claim C3 gives the number of components of each kind and their total, 41. The numbers of
  the kinds add up to 45, and that is the number of components the constructed board owns.
\<close>

theorem owned_components_not_41:
  "length (owned_components (fst (Mainboard_init ''ATX'' []))) = 45 \<and>
   length (owned_components (fst (Mainboard_init ''ATX'' []))) \<noteq> 41"
  by (simp add: Mainboard_init_eq board_at_def owned_components_def)

text \<open>
  Claim C3, amended. For every form factor, the constructed board holds 1 CPU socket,
  1 chipset, 4 memory slots, 4 M.2 slots, 8 SATA ports, 1 VRM, 8 fan headers, 2 pump
  headers, 3 addressable and 2 traditional RGB headers, 1 debug system, 1 BIOS, 1 audio
  system, 1 network block, 2 Thunderbolt ports, 2 PCIe x16 slots, 1 PCIe x4 slot and
  2 PCIe x1 slots, each in its own field or group and under its own kind label: a total of
  45 components, all of them different objects.
\<close>

theorem construction_counts:
  "component_type (cpu_socket (snapshot (Mainboard_init ff h))) = ''CPU Socket'' \<and>
   component_type (chipset (snapshot (Mainboard_init ff h))) = ''Chipset'' \<and>
   map component_type (memory_slots (snapshot (Mainboard_init ff h))) = replicate 4 ''RAM Slot'' \<and>
   map component_type (m2_slots (snapshot (Mainboard_init ff h))) = replicate 4 ''M.2 Slot'' \<and>
   map component_type (sata_ports (snapshot (Mainboard_init ff h))) = replicate 8 ''SATA Port'' \<and>
   component_type (vrm (snapshot (Mainboard_init ff h))) = ''VRM'' \<and>
   map component_type (fan_headers (snapshot (Mainboard_init ff h))) = replicate 8 ''Fan Header'' \<and>
   map component_type (pump_headers (snapshot (Mainboard_init ff h))) = replicate 2 ''Pump Header'' \<and>
   map (\<lambda>(k, cs). (k, map component_type cs)) (rgb_headers (snapshot (Mainboard_init ff h))) =
     [(''addressable'', replicate 3 ''ARGB Header''), (''traditional'', replicate 2 ''RGB Header'')] \<and>
   component_type (debug_features (snapshot (Mainboard_init ff h))) = ''Debug System'' \<and>
   component_type (bios_system (snapshot (Mainboard_init ff h))) = ''BIOS'' \<and>
   component_type (audio_system (snapshot (Mainboard_init ff h))) = ''Audio'' \<and>
   component_type (network (snapshot (Mainboard_init ff h))) = ''Network'' \<and>
   map component_type (thunderbolt (snapshot (Mainboard_init ff h))) = replicate 2 ''Thunderbolt 4'' \<and>
   map (\<lambda>(k, cs). (k, map component_type cs)) (pcie_slots (snapshot (Mainboard_init ff h))) =
     [(''x16'', replicate 2 ''PCIe x16''), (''x4'', replicate 1 ''PCIe x4''),
      (''x1'', replicate 2 ''PCIe x1'')] \<and>
   length (owned_components (fst (Mainboard_init ff h))) = 45 \<and>
   distinct (owned_components (fst (Mainboard_init ff h)))"
  apply (simp only: snapshot_explicit)
  apply (simp add: new_component_def Mainboard_init_eq board_at_def owned_components_def)
  done

text \<open>
  Claim C7. Construction is deterministic. Two boards built with the same form factor, on
  whatever heaps, and also one built right after the other on the same heap, have equal
  snapshots: the same label, and in every singleton field, list and named group the same
  number of components with the same kinds, spec tables and other fields.
\<close>

theorem construction_deterministic:
  "snapshot (Mainboard_init ff h1) = snapshot (Mainboard_init ff h2) \<and>
   snapshot (Mainboard_init ff (snd (Mainboard_init ff h1))) = snapshot (Mainboard_init ff h1)"
  by (simp only: snapshot_explicit)

text \<open>
  Claim C8. The form factor is stored and nothing else depends on it: boards built with
  two form factors have snapshots that differ in the field \<open>form_factor\<close> only, which holds
  the argument.
\<close>

theorem form_factor_only_label:
  "snapshot (Mainboard_init f1 h1) = (snapshot (Mainboard_init f2 h2))\<lparr>form_factor := f1\<rparr> \<and>
   form_factor (fst (Mainboard_init f1 h1)) = f1"
  apply (simp only: snapshot_explicit)
  apply (simp add: Mainboard_init_eq board_at_def)
  done

text \<open>
  Claim C6. Right after construction, with any form factor and on any heap, every
  component the board owns has the status \<open>operational\<close>, the temperature 0 and the power
  draw 0.
\<close>

theorem initial_component_state:
  "\<forall>r \<in> set (owned_components (fst (Mainboard_init ff h))).
     status (snd (Mainboard_init ff h) ! r) = ''operational'' \<and>
     temperature (snd (Mainboard_init ff h) ! r) = 0 \<and>
     power_draw (snd (Mainboard_init ff h) ! r) = 0"
proof
  fix r
  assume "r \<in> set (owned_components (fst (Mainboard_init ff h)))"
  from map_replicate_all [OF owned_status this]
  show "status (snd (Mainboard_init ff h) ! r) = ''operational'' \<and>
     temperature (snd (Mainboard_init ff h) ! r) = 0 \<and>
     power_draw (snd (Mainboard_init ff h) ! r) = 0"
    by simp
qed

theorem initial_component_state_witness:
  "5 \<in> set (owned_components (fst (Mainboard_init ''ATX'' []))) \<and>
   status (snd (Mainboard_init ''ATX'' []) ! 5) = ''operational'' \<and>
   temperature (snd (Mainboard_init ''ATX'' []) ! 5) = 0 \<and>
   power_draw (snd (Mainboard_init ''ATX'' []) ! 5) = 0"
proof -
  have m: "5 \<in> set (owned_components (fst (Mainboard_init ''ATX'' [])))"
    by (simp add: Mainboard_init_eq board_at_def owned_components_def)
  show ?thesis
    using m initial_component_state [of "''ATX''" "[]", THEN bspec, OF m] by simp
qed

subsection \<open>The status dictionary\<close>



subsection \<open>The diagnostic operations\<close>




end
